theory Spec2Isabelle
  imports Main
begin

section \<open>Python values reaching \<open>evaluate_location\<close>\<close>

text \<open>
  \<open>bus_tracker.py\<close> is Python 3 (it uses f-strings), and \<open>evaluate_location\<close> declares
  no types: its four arguments are whatever the caller passes. The values modelled are
  \<open>None\<close>, booleans, (unbounded) integers and strings. Floats, lists, tuples,
  dictionaries and bytes are not modelled, so nothing below speaks for them.

  The function applies four operations to its arguments:
  \<^item> \<open>x == "literal"\<close>: true only for a string with the same characters; a value of
    another type is unequal to every string, and no comparison with \<open>==\<close> raises;
  \<^item> the truth test of \<open>if x and ...\<close>: \<open>None\<close>, \<open>False\<close>, \<open>0\<close> and \<open>""\<close> are false,
    every other value is true;
  \<^item> \<open>x >= 3\<close> and \<open>x > 0\<close>: integer comparison; \<open>bool\<close> is a subclass of \<open>int\<close>
    (\<open>True\<close> is 1, \<open>False\<close> is 0); comparing \<open>None\<close> or a string with an integer
    raises \<open>TypeError\<close>.
\<close>

datatype pyval = PNone | PBool bool | PInt int | PStr string

datatype pyerr = TypeError

fun py_eq_str :: "pyval \<Rightarrow> string \<Rightarrow> bool" where
  "py_eq_str (PStr s) lit = (s = lit)"
| "py_eq_str PNone lit = False"
| "py_eq_str (PBool b) lit = False"
| "py_eq_str (PInt i) lit = False"

fun truthy :: "pyval \<Rightarrow> bool" where
  "truthy PNone = False"
| "truthy (PBool b) = b"
| "truthy (PInt i) = (i \<noteq> 0)"
| "truthy (PStr s) = (s \<noteq> [])"

fun py_ge_int :: "pyval \<Rightarrow> int \<Rightarrow> pyerr + bool" where
  "py_ge_int (PInt i) k = Inr (i \<ge> k)"
| "py_ge_int (PBool b) k = Inr ((if b then 1 else 0) \<ge> k)"
| "py_ge_int PNone k = Inl TypeError"
| "py_ge_int (PStr s) k = Inl TypeError"

fun py_gt_int :: "pyval \<Rightarrow> int \<Rightarrow> pyerr + bool" where
  "py_gt_int (PInt i) k = Inr (i > k)"
| "py_gt_int (PBool b) k = Inr ((if b then 1 else 0) > k)"
| "py_gt_int PNone k = Inl TypeError"
| "py_gt_int (PStr s) k = Inl TypeError"

section \<open>\<open>BusTruthAgent.evaluate_location\<close>\<close>

text \<open>
  The method returns a triple (confidence, status, message); a raised exception is the
  \<open>Inl\<close> branch. \<open>self\<close> is the agent object the method is called on: the class
  declares no attribute and the body never reads \<open>self\<close>, so its type is left open.
  The nesting and the order of the tests are the source's.
\<close>

type_synonym verdict = "int \<times> string \<times> string"

definition evaluate_location ::
  "'self \<Rightarrow> pyval \<Rightarrow> pyval \<Rightarrow> pyval \<Rightarrow> pyval \<Rightarrow> pyerr + verdict" where
  "evaluate_location self hw_gps driver_face_active driver_mobile mesh_passengers =
    (if py_eq_str hw_gps ''OFFLINE'' then
       (if truthy driver_face_active \<and> py_eq_str driver_mobile ''ON_ROUTE'' then
          (case py_ge_int mesh_passengers 3 of
             Inl e \<Rightarrow> Inl e
           | Inr True \<Rightarrow>
               Inr (98, ''VERIFIED BY RIDER MESH'',
                    ''SUCCESS: High-confidence location via passenger & driver mesh.'')
           | Inr False \<Rightarrow>
               (case py_gt_int mesh_passengers 0 of
                  Inl e \<Rightarrow> Inl e
                | Inr True \<Rightarrow>
                    Inr (75, ''PROBABLE LOCATION'',
                         ''CAUTION: Hardware down. Location estimated via driver and few riders.'')
                | Inr False \<Rightarrow>
                    Inr (45, ''STATUS UNCERTAIN'',
                         ''WARNING: Hardware down. Only driver mobile detected.'')))
        else
          Inr (5, ''GHOST BUS ALERT'',
               ''ERROR: No reliable signal from bus, driver, or mesh. Likely out of service.''))
     else
       Inr (100, ''HARDWARE LIVE'', ''Bus is actively broadcasting GPS signal.''))"

section \<open>The severity tier of the dashboard\<close>

text \<open>
  The dashboard chooses the widget from the confidence, inline:
  \<^verbatim>\<open>if conf > 80: st.success(...) elif conf > 40: st.warning(...) else: st.error(...)\<close>.
  The three widgets are the tiers \<open>POSITIVE\<close> (\<open>st.success\<close>), \<open>CAUTION\<close>
  (\<open>st.warning\<close>) and \<open>ERROR\<close> (\<open>st.error\<close>).
\<close>

datatype tier = POSITIVE | CAUTION | ERROR

definition tierOf :: "int \<Rightarrow> tier" where
  "tierOf conf = (if conf > 80 then POSITIVE else if conf > 40 then CAUTION else ERROR)"

section \<open>Properties\<close>

subsection \<open>Auxiliary facts\<close>

lemma py_eq_str_iff: "py_eq_str v lit \<longleftrightarrow> v = PStr lit"
  by (cases v) auto

text \<open>Every verdict the method can return is one of its five \<open>return\<close> statements.\<close>

lemma evaluate_location_verdicts:
  assumes "evaluate_location self hw_gps driver_face_active driver_mobile mesh_passengers
             = Inr v"
  shows "v \<in>
     {(100, ''HARDWARE LIVE'', ''Bus is actively broadcasting GPS signal.''),
      (98, ''VERIFIED BY RIDER MESH'',
       ''SUCCESS: High-confidence location via passenger & driver mesh.''),
      (75, ''PROBABLE LOCATION'',
       ''CAUTION: Hardware down. Location estimated via driver and few riders.''),
      (45, ''STATUS UNCERTAIN'', ''WARNING: Hardware down. Only driver mobile detected.''),
      (5, ''GHOST BUS ALERT'',
       ''ERROR: No reliable signal from bus, driver, or mesh. Likely out of service.'')}"
  using assms
  by (cases mesh_passengers)
     (auto simp add: evaluate_location_def split: if_splits bool.splits)

text \<open>With an integer mesh count no comparison can raise.\<close>

lemma evaluate_location_int_mesh:
  "\<exists>v. evaluate_location self hw_gps driver_face_active driver_mobile (PInt n) = Inr v"
  by (simp add: evaluate_location_def split: bool.splits)

text \<open>
  The error branch of the model is not idle: a mesh count of \<open>None\<close> raises once the
  mesh comparison is reached.
\<close>

lemma mesh_none_raises:
  "evaluate_location self (PStr ''OFFLINE'') (PBool True) (PStr ''ON_ROUTE'') PNone
     = Inl TypeError"
  by (simp add: evaluate_location_def)

subsection \<open>The decision policy\<close>

text \<open>
  C1. Whenever \<open>hw_gps\<close> is the string \<open>LIVE\<close>, the verdict is confidence 100, the
  hardware-live status (the spec's \<open>HARDWARE_LIVE\<close>; the source returns the string
  \<open>HARDWARE LIVE\<close>) and the message \<open>Bus is actively broadcasting GPS signal.\<close>,
  whatever the driver's face check, the driver's mobile status and the mesh count are:
  they may be any Python value, also one on which the mesh comparison would raise.
\<close>

theorem live_gps_preempts:
  "evaluate_location self (PStr ''LIVE'') driver_face_active driver_mobile mesh_passengers
     = Inr (100, ''HARDWARE LIVE'', ''Bus is actively broadcasting GPS signal.'')"
  by (simp add: evaluate_location_def)

text \<open>
  C2. When \<open>hw_gps\<close> is \<open>OFFLINE\<close> and the driver's face is not verified or the driver's
  mobile status is not \<open>ON_ROUTE\<close>, the verdict is confidence 5 with the ghost-bus status
  (the spec's \<open>GHOST_BUS_ALERT\<close>; the string \<open>GHOST BUS ALERT\<close> in the source), for every
  mesh count. The mesh count is not consulted: the result is the same verdict, and never
  an exception, also for a mesh count that cannot be compared with a number.
\<close>

theorem ghost_bus_without_prime_evidence:
  assumes "\<not> truthy driver_face_active \<or> driver_mobile \<noteq> PStr ''ON_ROUTE''"
  shows "evaluate_location self (PStr ''OFFLINE'') driver_face_active driver_mobile
           mesh_passengers
         = Inr (5, ''GHOST BUS ALERT'',
                ''ERROR: No reliable signal from bus, driver, or mesh. Likely out of service.'')"
  using assms by (auto simp add: evaluate_location_def py_eq_str_iff)

theorem ghost_bus_without_prime_evidence_witness:
  "\<not> truthy (PBool False)
   \<and> evaluate_location () (PStr ''OFFLINE'') (PBool False) (PStr ''ON_ROUTE'') (PInt 20)
       = Inr (5, ''GHOST BUS ALERT'',
              ''ERROR: No reliable signal from bus, driver, or mesh. Likely out of service.'')
   \<and> PStr ''UNKNOWN'' \<noteq> PStr ''ON_ROUTE''
   \<and> evaluate_location () (PStr ''OFFLINE'') (PBool True) (PStr ''UNKNOWN'') PNone
       = Inr (5, ''GHOST BUS ALERT'',
              ''ERROR: No reliable signal from bus, driver, or mesh. Likely out of service.'')"
proof -
  have face: "\<not> truthy (PBool False) \<or> PStr ''ON_ROUTE'' \<noteq> PStr ''ON_ROUTE''"
    by simp
  have mobile: "\<not> truthy (PBool True) \<or> PStr ''UNKNOWN'' \<noteq> PStr ''ON_ROUTE''"
    by simp
  show ?thesis
    using ghost_bus_without_prime_evidence [OF face, of "()" "PInt 20"]
      ghost_bus_without_prime_evidence [OF mobile, of "()" PNone]
    by simp
qed

text \<open>
  C3. With \<open>hw_gps\<close> \<open>OFFLINE\<close>, the driver's face verified and the driver's mobile
  \<open>ON_ROUTE\<close>, the confidence is a step function of the mesh count over the non-negative
  integers: 0 gives 45 (\<open>STATUS UNCERTAIN\<close>), 1 and 2 give 75 (\<open>PROBABLE LOCATION\<close>),
  3 and more give 98 (\<open>VERIFIED BY RIDER MESH\<close>). It never decreases: a mesh count
  \<open>m \<le> n\<close> gets a confidence no larger than that of \<open>n\<close>, and the only confidences are
  45, 75 and 98.
\<close>

theorem mesh_confidence_step_function:
  fixes m n :: int
  assumes "truthy driver_face_active" and "0 \<le> m" and "m \<le> n"
  shows "evaluate_location self (PStr ''OFFLINE'') driver_face_active (PStr ''ON_ROUTE'') (PInt m)
           = Inr (if m = 0 then
                    (45, ''STATUS UNCERTAIN'',
                     ''WARNING: Hardware down. Only driver mobile detected.'')
                  else if m \<in> {1, 2} then
                    (75, ''PROBABLE LOCATION'',
                     ''CAUTION: Hardware down. Location estimated via driver and few riders.'')
                  else
                    (98, ''VERIFIED BY RIDER MESH'',
                     ''SUCCESS: High-confidence location via passenger & driver mesh.''))
         \<and> (\<exists>c l t c' l' t'.
               evaluate_location self (PStr ''OFFLINE'') driver_face_active (PStr ''ON_ROUTE'')
                 (PInt m) = Inr (c, l, t)
             \<and> evaluate_location self (PStr ''OFFLINE'') driver_face_active (PStr ''ON_ROUTE'')
                 (PInt n) = Inr (c', l', t')
             \<and> c \<le> c' \<and> c \<in> {45, 75, 98})"
  using assms by (auto simp add: evaluate_location_def split: bool.splits)

theorem mesh_confidence_step_function_witness:
  "truthy (PBool True) \<and> (0::int) \<le> 2 \<and> (2::int) \<le> 3
   \<and> evaluate_location () (PStr ''OFFLINE'') (PBool True) (PStr ''ON_ROUTE'') (PInt 2)
       = Inr (75, ''PROBABLE LOCATION'',
              ''CAUTION: Hardware down. Location estimated via driver and few riders.'')
   \<and> (\<exists>c l t c' l' t'.
         evaluate_location () (PStr ''OFFLINE'') (PBool True) (PStr ''ON_ROUTE'') (PInt 2)
           = Inr (c, l, t)
       \<and> evaluate_location () (PStr ''OFFLINE'') (PBool True) (PStr ''ON_ROUTE'') (PInt 3)
           = Inr (c', l', t')
       \<and> c \<le> c' \<and> c \<in> {45, 75, 98})"
proof -
  have face: "truthy (PBool True)" by simp
  have lo: "(0::int) \<le> 2" by simp
  have le: "(2::int) \<le> 3" by simp
  show ?thesis
    using mesh_confidence_step_function [OF face lo le, of "()"] by auto
qed

text \<open>
  C4. On the declared input domain (\<open>hw_gps\<close> one of \<open>LIVE\<close>, \<open>OFFLINE\<close>; a boolean
  face flag; \<open>driver_mobile\<close> one of \<open>ON_ROUTE\<close>, \<open>UNKNOWN\<close>; a non-negative integer
  mesh count) the method returns a verdict, with a confidence between 0 and 100, and
  raises nothing.
\<close>

theorem evaluate_location_total_on_domain:
  assumes "hw_gps \<in> {PStr ''LIVE'', PStr ''OFFLINE''}"
    and "driver_mobile \<in> {PStr ''ON_ROUTE'', PStr ''UNKNOWN''}"
    and "0 \<le> n"
  shows "\<exists>c l t. evaluate_location self hw_gps (PBool b) driver_mobile (PInt n) = Inr (c, l, t)
                 \<and> 0 \<le> c \<and> c \<le> 100"
proof -
  obtain v where v: "evaluate_location self hw_gps (PBool b) driver_mobile (PInt n) = Inr v"
    using evaluate_location_int_mesh [of self hw_gps "PBool b" driver_mobile n] by blast
  obtain c l t where clt: "v = (c, l, t)"
    by (cases v) auto
  from evaluate_location_verdicts [OF v] clt have "0 \<le> c \<and> c \<le> 100"
    by auto
  with v clt show ?thesis by blast
qed

theorem evaluate_location_total_on_domain_witness:
  "PStr ''OFFLINE'' \<in> {PStr ''LIVE'', PStr ''OFFLINE''}
   \<and> PStr ''ON_ROUTE'' \<in> {PStr ''ON_ROUTE'', PStr ''UNKNOWN''}
   \<and> (0::int) \<le> 7
   \<and> (\<exists>c l t. evaluate_location () (PStr ''OFFLINE'') (PBool True) (PStr ''ON_ROUTE'') (PInt 7)
                 = Inr (c, l, t) \<and> 0 \<le> c \<and> c \<le> 100)"
proof -
  have gps: "PStr ''OFFLINE'' \<in> {PStr ''LIVE'', PStr ''OFFLINE''}" by simp
  have mobile: "PStr ''ON_ROUTE'' \<in> {PStr ''ON_ROUTE'', PStr ''UNKNOWN''}" by simp
  have mesh: "(0::int) \<le> 7" by simp
  show ?thesis
    using gps mobile mesh
      evaluate_location_total_on_domain [OF gps mobile mesh, of "()" True]
    by blast
qed

text \<open>
  C10. The only test on \<open>hw_gps\<close> is equality with the string \<open>OFFLINE\<close>: every other
  value, a string that is neither \<open>LIVE\<close> nor \<open>OFFLINE\<close> or a value that is no string
  at all, falls through to the last \<open>return\<close> and gets the hardware-live verdict
  (confidence 100, status \<open>HARDWARE LIVE\<close>), for all values of the other three
  arguments.
\<close>

theorem unrecognised_gps_defaults_to_live:
  assumes "hw_gps \<noteq> PStr ''OFFLINE''"
  shows "evaluate_location self hw_gps driver_face_active driver_mobile mesh_passengers
         = Inr (100, ''HARDWARE LIVE'', ''Bus is actively broadcasting GPS signal.'')"
  using assms by (simp add: evaluate_location_def py_eq_str_iff)

theorem unrecognised_gps_defaults_to_live_witness:
  "PStr ''offline'' \<noteq> PStr ''OFFLINE''
   \<and> evaluate_location () (PStr ''offline'') (PBool True) (PStr ''ON_ROUTE'') (PInt 0)
       = Inr (100, ''HARDWARE LIVE'', ''Bus is actively broadcasting GPS signal.'')
   \<and> PNone \<noteq> PStr ''OFFLINE''
   \<and> evaluate_location () PNone (PBool False) (PStr ''UNKNOWN'') PNone
       = Inr (100, ''HARDWARE LIVE'', ''Bus is actively broadcasting GPS signal.'')"
proof -
  have lower: "PStr ''offline'' \<noteq> PStr ''OFFLINE''" by simp
  have none: "PNone \<noteq> PStr ''OFFLINE''" by simp
  show ?thesis
    using lower none
      unrecognised_gps_defaults_to_live
        [OF lower, of "()" "PBool True" "PStr ''ON_ROUTE''" "PInt 0"]
      unrecognised_gps_defaults_to_live
        [OF none, of "()" "PBool False" "PStr ''UNKNOWN''" PNone]
    by blast
qed

subsection \<open>The shape of the verdicts\<close>

text \<open>
  C8. The message is fixed by the status: every returned (status, message) pair is one
  of five constant pairs, and two evaluations, of any two inputs, that return the same
  status return the same message.
\<close>

theorem message_fixed_per_status:
  assumes "evaluate_location self hw_gps driver_face_active driver_mobile mesh_passengers
             = Inr (c, l, t)"
    and "evaluate_location self' hw_gps' driver_face_active' driver_mobile' mesh_passengers'
             = Inr (c', l', t')"
  shows "(l, t) \<in>
           {(''HARDWARE LIVE'', ''Bus is actively broadcasting GPS signal.''),
            (''VERIFIED BY RIDER MESH'',
             ''SUCCESS: High-confidence location via passenger & driver mesh.''),
            (''PROBABLE LOCATION'',
             ''CAUTION: Hardware down. Location estimated via driver and few riders.''),
            (''STATUS UNCERTAIN'', ''WARNING: Hardware down. Only driver mobile detected.''),
            (''GHOST BUS ALERT'',
             ''ERROR: No reliable signal from bus, driver, or mesh. Likely out of service.'')}
         \<and> (l = l' \<longrightarrow> t = t')"
  using evaluate_location_verdicts [OF assms(1)] evaluate_location_verdicts [OF assms(2)]
  by (elim insertE emptyE) simp_all

theorem message_fixed_per_status_witness:
  "evaluate_location () (PStr ''OFFLINE'') (PBool False) (PStr ''ON_ROUTE'') (PInt 20)
     = Inr (5, ''GHOST BUS ALERT'',
            ''ERROR: No reliable signal from bus, driver, or mesh. Likely out of service.'')
   \<and> evaluate_location () (PStr ''OFFLINE'') (PBool True) (PStr ''UNKNOWN'') (PInt 10)
     = Inr (5, ''GHOST BUS ALERT'',
            ''ERROR: No reliable signal from bus, driver, or mesh. Likely out of service.'')
   \<and> (''GHOST BUS ALERT'',
       ''ERROR: No reliable signal from bus, driver, or mesh. Likely out of service.'') \<in>
           {(''HARDWARE LIVE'', ''Bus is actively broadcasting GPS signal.''),
            (''VERIFIED BY RIDER MESH'',
             ''SUCCESS: High-confidence location via passenger & driver mesh.''),
            (''PROBABLE LOCATION'',
             ''CAUTION: Hardware down. Location estimated via driver and few riders.''),
            (''STATUS UNCERTAIN'', ''WARNING: Hardware down. Only driver mobile detected.''),
            (''GHOST BUS ALERT'',
             ''ERROR: No reliable signal from bus, driver, or mesh. Likely out of service.'')}"
proof -
  have first:
    "evaluate_location () (PStr ''OFFLINE'') (PBool False) (PStr ''ON_ROUTE'') (PInt 20)
       = Inr (5, ''GHOST BUS ALERT'',
              ''ERROR: No reliable signal from bus, driver, or mesh. Likely out of service.'')"
    by (simp add: evaluate_location_def)
  have second:
    "evaluate_location () (PStr ''OFFLINE'') (PBool True) (PStr ''UNKNOWN'') (PInt 10)
       = Inr (5, ''GHOST BUS ALERT'',
              ''ERROR: No reliable signal from bus, driver, or mesh. Likely out of service.'')"
    by (simp add: evaluate_location_def)
  from message_fixed_per_status [OF first second] first second
  show ?thesis by simp
qed

text \<open>
  C9. On the declared input domain the confidences returned are exactly 5, 45, 75, 98
  and 100, and the confidence determines the verdict: two inputs of the domain both get
  a verdict, and when the confidences agree, so do the statuses and the messages.
\<close>

theorem confidence_determines_verdict:
  assumes "hw_gps \<in> {PStr ''LIVE'', PStr ''OFFLINE''}"
    and "driver_mobile \<in> {PStr ''ON_ROUTE'', PStr ''UNKNOWN''}"
    and "0 \<le> n"
    and "hw_gps' \<in> {PStr ''LIVE'', PStr ''OFFLINE''}"
    and "driver_mobile' \<in> {PStr ''ON_ROUTE'', PStr ''UNKNOWN''}"
    and "0 \<le> n'"
  shows "{c. \<exists>g b d k l t. g \<in> {PStr ''LIVE'', PStr ''OFFLINE''}
               \<and> d \<in> {PStr ''ON_ROUTE'', PStr ''UNKNOWN''} \<and> 0 \<le> k
               \<and> evaluate_location self g (PBool b) d (PInt k) = Inr (c, l, t)}
           = {5, 45, 75, 98, 100}
         \<and> (\<exists>c l t c' l' t'.
               evaluate_location self hw_gps (PBool b) driver_mobile (PInt n) = Inr (c, l, t)
             \<and> evaluate_location self hw_gps' (PBool b') driver_mobile' (PInt n')
                 = Inr (c', l', t')
             \<and> (c = c' \<longrightarrow> l = l' \<and> t = t'))"
proof
  let ?E = "\<lambda>g b d k. evaluate_location self g (PBool b) d (PInt k)"
  let ?C = "{c. \<exists>g b d k l t. g \<in> {PStr ''LIVE'', PStr ''OFFLINE''}
               \<and> d \<in> {PStr ''ON_ROUTE'', PStr ''UNKNOWN''} \<and> 0 \<le> k
               \<and> ?E g b d k = Inr (c, l, t)}"
  have sub: "?C \<subseteq> {5, 45, 75, 98, 100}"
  proof
    fix c assume "c \<in> ?C"
    then obtain g b d k l t where "?E g b d k = Inr (c, l, t)"
      by blast
    from evaluate_location_verdicts [OF this] show "c \<in> {5, 45, 75, 98, 100}"
      by (elim insertE emptyE) simp_all
  qed
  have e5: "?E (PStr ''OFFLINE'') False (PStr ''UNKNOWN'') 0 = Inr (5, ''GHOST BUS ALERT'',
      ''ERROR: No reliable signal from bus, driver, or mesh. Likely out of service.'')"
    by (simp add: evaluate_location_def)
  have e45: "?E (PStr ''OFFLINE'') True (PStr ''ON_ROUTE'') 0 = Inr (45, ''STATUS UNCERTAIN'',
      ''WARNING: Hardware down. Only driver mobile detected.'')"
    by (simp add: evaluate_location_def)
  have e75: "?E (PStr ''OFFLINE'') True (PStr ''ON_ROUTE'') 1 = Inr (75, ''PROBABLE LOCATION'',
      ''CAUTION: Hardware down. Location estimated via driver and few riders.'')"
    by (simp add: evaluate_location_def)
  have e98: "?E (PStr ''OFFLINE'') True (PStr ''ON_ROUTE'') 3
      = Inr (98, ''VERIFIED BY RIDER MESH'',
             ''SUCCESS: High-confidence location via passenger & driver mesh.'')"
    by (simp add: evaluate_location_def)
  have e100: "?E (PStr ''LIVE'') True (PStr ''ON_ROUTE'') 0
      = Inr (100, ''HARDWARE LIVE'', ''Bus is actively broadcasting GPS signal.'')"
    by (simp add: evaluate_location_def)
  have attained: "c \<in> ?C"
    if "g \<in> {PStr ''LIVE'', PStr ''OFFLINE''}"
      and "d \<in> {PStr ''ON_ROUTE'', PStr ''UNKNOWN''}"
      and "0 \<le> k"
      and "?E g b d k = Inr (c, l, t)"
    for g b d k c l t
    by (rule CollectI, intro exI conjI) (rule that)+
  have "5 \<in> ?C" by (rule attained [OF _ _ _ e5]) simp_all
  moreover have "45 \<in> ?C" by (rule attained [OF _ _ _ e45]) simp_all
  moreover have "75 \<in> ?C" by (rule attained [OF _ _ _ e75]) simp_all
  moreover have "98 \<in> ?C" by (rule attained [OF _ _ _ e98]) simp_all
  moreover have "100 \<in> ?C" by (rule attained [OF _ _ _ e100]) simp_all
  ultimately show "?C = {5, 45, 75, 98, 100}"
    using sub by blast
next
  obtain v where v: "evaluate_location self hw_gps (PBool b) driver_mobile (PInt n) = Inr v"
    using evaluate_location_int_mesh [of self hw_gps "PBool b" driver_mobile n] by blast
  obtain v' where
    v': "evaluate_location self hw_gps' (PBool b') driver_mobile' (PInt n') = Inr v'"
    using evaluate_location_int_mesh [of self hw_gps' "PBool b'" driver_mobile' n'] by blast
  obtain c l t where clt: "v = (c, l, t)" by (cases v) auto
  obtain c' l' t' where clt': "v' = (c', l', t')" by (cases v') auto
  from evaluate_location_verdicts [OF v] evaluate_location_verdicts [OF v'] clt clt'
  have "c = c' \<longrightarrow> l = l' \<and> t = t'"
    by (elim insertE emptyE) simp_all
  with v v' clt clt'
  show "\<exists>c l t c' l' t'.
          evaluate_location self hw_gps (PBool b) driver_mobile (PInt n) = Inr (c, l, t)
        \<and> evaluate_location self hw_gps' (PBool b') driver_mobile' (PInt n')
            = Inr (c', l', t')
        \<and> (c = c' \<longrightarrow> l = l' \<and> t = t')"
    by blast
qed

theorem confidence_determines_verdict_witness:
  "PStr ''OFFLINE'' \<in> {PStr ''LIVE'', PStr ''OFFLINE''}
   \<and> PStr ''ON_ROUTE'' \<in> {PStr ''ON_ROUTE'', PStr ''UNKNOWN''}
   \<and> (0::int) \<le> 1 \<and> (0::int) \<le> 2
   \<and> (\<exists>c l t c' l' t'.
         evaluate_location () (PStr ''OFFLINE'') (PBool True) (PStr ''ON_ROUTE'') (PInt 1)
           = Inr (c, l, t)
       \<and> evaluate_location () (PStr ''OFFLINE'') (PBool True) (PStr ''ON_ROUTE'') (PInt 2)
           = Inr (c', l', t')
       \<and> c = 75 \<and> c' = 75 \<and> l = l' \<and> t = t')"
proof -
  have gps: "PStr ''OFFLINE'' \<in> {PStr ''LIVE'', PStr ''OFFLINE''}" by simp
  have mobile: "PStr ''ON_ROUTE'' \<in> {PStr ''ON_ROUTE'', PStr ''UNKNOWN''}" by simp
  have one: "(0::int) \<le> 1" by simp
  have two: "(0::int) \<le> 2" by simp
  have first:
    "evaluate_location () (PStr ''OFFLINE'') (PBool True) (PStr ''ON_ROUTE'') (PInt 1)
       = Inr (75, ''PROBABLE LOCATION'',
              ''CAUTION: Hardware down. Location estimated via driver and few riders.'')"
    by (simp add: evaluate_location_def)
  have second:
    "evaluate_location () (PStr ''OFFLINE'') (PBool True) (PStr ''ON_ROUTE'') (PInt 2)
       = Inr (75, ''PROBABLE LOCATION'',
              ''CAUTION: Hardware down. Location estimated via driver and few riders.'')"
    by (simp add: evaluate_location_def)
  from confidence_determines_verdict [OF gps mobile one gps mobile two, of "()" True True]
  show ?thesis
    unfolding first second using gps mobile by simp
qed

subsection \<open>The severity tiers\<close>

text \<open>
  C5. \<open>tierOf\<close> cuts the confidences at 40 and 80: a confidence above 80 is
  \<open>POSITIVE\<close>, one above 40 and at most 80 is \<open>CAUTION\<close>, one of at most 40 is \<open>ERROR\<close>,
  and nothing else is. Within the range 0 to 100 the three tiers are the three adjacent
  intervals 0 to 40, 41 to 80 and 81 to 100, which neither overlap nor leave a gap.
\<close>

theorem tierOf_partitions_confidence_range:
  "(tierOf c = POSITIVE) = (80 < c)
   \<and> (tierOf c = CAUTION) = (40 < c \<and> c \<le> 80)
   \<and> (tierOf c = ERROR) = (c \<le> 40)
   \<and> {k \<in> {0..100}. tierOf k = POSITIVE} = {81..100}
   \<and> {k \<in> {0..100}. tierOf k = CAUTION} = {41..80}
   \<and> {k \<in> {0..100}. tierOf k = ERROR} = {0..40}"
  by (auto simp add: tierOf_def)

subsection \<open>Inputs outside the declared domain\<close>



end
